theory Spec2Isabelle
  imports
    Complex_Main
    "HOL-Library.Multiset"
    "HOL-Library.Char_ord"
    "HOL-Library.List_Lexorder"
    "HOL-Library.Product_Lexorder"
begin

section \<open>Material news monitor (trend.py): configuration\<close>

text \<open>
  The module-level constants of \<^verbatim>\<open>trend.py\<close>. Strings are lists of characters; Python
  numbers that mix \<^verbatim>\<open>int\<close> and \<^verbatim>\<open>float\<close> are reals, so that the arithmetic of the
  scoring formula is exact (no rounding of the floating-point products is modelled).
\<close>

definition MIN_RELEVANCE :: int where
  "MIN_RELEVANCE = 60"

definition RETRY_ATTEMPTS :: nat where
  "RETRY_ATTEMPTS = 3"

definition RETRY_BACKOFF :: "real \<times> real" where
  "RETRY_BACKOFF = (1.2, 2.0)"

definition PINNED_SIGNALS :: "string list" where
  "PINNED_SIGNALS = [''https://www.bbc.com/news/articles/c9qy98gp474o'']"

definition MPL_TERMS :: "string list" where
  "MPL_TERMS =
    [''Movit'', ''Movit Products'', ''MPL'', ''Radiant'', ''Movit Uganda'', ''Movit East Africa'',
     ''cosmetics'', ''personal care'', ''hair care'', ''skin care'', ''beauty industry'']"

definition EAST_AF_HINTS :: "string list" where
  "EAST_AF_HINTS =
    [''Uganda'', ''Kenya'', ''Tanzania'', ''Rwanda'', ''Burundi'', ''DRC'', ''Zambia'',
     ''South Sudan'', ''Malawi'', ''Mozambique'', ''Angola'', ''Zimbabwe'', ''Nigeria'',
     ''East Africa'', ''COMESA'', ''EAC'']"

definition GLOBAL_SUPPLY_HINTS :: "string list" where
  "GLOBAL_SUPPLY_HINTS =
    [''Suez Canal'', ''Panama Canal'', ''Strait of Hormuz'', ''Red Sea'', ''Cape of Good Hope'',
     ''port congestion'', ''port strike'', ''rail strike'', ''truckers strike'', ''freight rates'',
     ''container shortage'', ''IMO 2020'', ''shipping disruption'', ''supply chain disruption'',
     ''Houthi'', ''piracy'', ''Maersk'', ''MSC'', ''CMA CGM'', ''Evergreen'', ''Hapag-Lloyd'',
     ''Brent'', ''WTI'', ''naphtha'', ''paraffin'', ''propane'', ''butane'', ''natural gas'',
     ''feedstock'', ''oleochemicals'', ''palm oil'', ''palm kernel oil'', ''PKO'', ''coconut oil'',
     ''tallow'', ''ethanol'', ''isopropanol'', ''propylene'', ''ethylene'', ''benzene'',
     ''export ban'', ''export curbs'', ''sanctions'', ''REACH'', ''IFRA'', ''EU cosmetics regulation'',
     ''US FDA cosmetics'', ''Kenya Bureau of Standards'', ''UNBS'', ''tax'', ''levy'', ''tariff'',
     ''VAT'']"

definition GLOBAL_PORTS :: "string list" where
  "GLOBAL_PORTS =
    [''Shanghai'', ''Ningbo'', ''Shenzhen'', ''Tianjin'', ''Qingdao'', ''Busan'',
     ''Singapore'', ''Port Klang'', ''Tanjung Pelepas'', ''Nhava Sheva'', ''Mundra'',
     ''Jebel Ali'', ''Rotterdam'', ''Antwerp'', ''Hamburg'', ''Felixstowe'',
     ''Durban'', ''Mombasa'', ''Dar es Salaam'', ''Djibouti'', ''Walvis Bay'']"

text \<open>The synonym dictionary, as an association list looked up with \<^const>\<open>map_of\<close>.\<close>

definition SYNONYMS :: "(string \<times> string list) list" where
  "SYNONYMS =
    [(''LPG GAS'', [''liquefied petroleum gas'', ''propane'', ''butane'', ''autogas'']),
     (''SLES 70%(TEXAPON) SODIUM LAURYL ETHER SU'',
        [''SLES 70'', ''sodium laureth sulfate'', ''texapon'', ''lauryl ether sulfate'']),
     (''PHOSPHERIC ACID'', [''phosphoric acid'', ''H3PO4'']),
     (''CETOSTEARYL ALCOHOL (LANETTE  D )'',
        [''cetearyl alcohol'', ''cetostearyl alcohol'', ''lanette d'']),
     (''TRIETHANOLAMINE'', [''TEA'', ''triethanolamine'']),
     (''ACETONE'', [''propanone'']),
     (''HYDROGEN PEROXIDE 50%'', [''H2O2 50%'', ''hydrogen peroxide solution'']),
     (''THIOGLYCOLIC ACID 99%'', [''mercaptoacetic acid'', ''thioglycolic acid'']),
     (''REFINED SULPHUR POWDER'', [''sulfur powder'', ''sulphur powder'']),
     (''AEROSOL PROPELLANT GAS'', [''propellant gas'', ''aerosol propellant'', ''LPG propellant'']),
     (''WHITE OIL/ LIQUID PARAFFIN LIGHT'',
        [''white mineral oil'', ''liquid paraffin'', ''white mineral oil light'']),
     (''CARBOPOL 990'', [''carbomer 990'', ''carbopol polymer'']),
     (''CETEARETH 25'', [''ceteareth-25'']),
     (''BEHENTRIMONIUM CHLORIDE'', [''BTAC'', ''behentrimonium chloride'']),
     (''SODIUM BENZOATE POWDER BP 2017'', [''sodium benzoate'']),
     (''PVP K 30'', [''polyvinylpyrrolidone k30'', ''povidone k30'']),
     (''GLYCERINE  OIL'', [''glycerin'', ''glycerol'']),
     (''POLYSORBATE 20'', [''tween 20'', ''polyoxyethylene (20) sorbitan monolaurate'']),
     (''CRODOMOL STS'', [''cetearyl ethylhexanoate (Crodamol STS)'', ''crodamol sts'']),
     (''PLANTACARE 818 UP'', [''caprylyl/capryl glucoside'', ''plantacare 818'']),
     (''XIAMETER (PMX 245)/SK.SF 1202'',
        [''octamethyltrisiloxane'', ''OMTS'', ''PMX-245'', ''silicone solvent''])]"

section \<open>Strings\<close>

text \<open>
  \<^verbatim>\<open>str.lower()\<close> on the ASCII letters; every other character is left as it is.
\<close>

definition lower_char :: "char \<Rightarrow> char" where
  "lower_char c =
     (let n = (of_char c :: nat) in if 65 \<le> n \<and> n \<le> 90 then char_of (n + 32) else c)"

definition lower :: "string \<Rightarrow> string" where
  "lower s = map lower_char s"

text \<open>\<^verbatim>\<open>k in t\<close> for strings: \<open>k\<close> occurs in \<open>t\<close> as a contiguous substring.\<close>

fun starts_with :: "string \<Rightarrow> string \<Rightarrow> bool" where
  "starts_with [] t = True"
| "starts_with (c # k) [] = False"
| "starts_with (c # k) (d # t) = (c = d \<and> starts_with k t)"

fun contains :: "string \<Rightarrow> string \<Rightarrow> bool" where
  "contains k [] = (k = [])"
| "contains k (d # t) = (starts_with k (d # t) \<or> contains k t)"

text \<open>\<^verbatim>\<open>list(dict.fromkeys(qs))\<close>: duplicates removed, the first occurrence kept.\<close>

fun fromkeys :: "'a list \<Rightarrow> 'a list \<Rightarrow> 'a list" where
  "fromkeys acc [] = rev acc"
| "fromkeys acc (q # qs) = (if q \<in> set acc then fromkeys acc qs else fromkeys (q # acc) qs)"

definition expand_queries :: "string \<Rightarrow> string list" where
  "expand_queries material =
     fromkeys [] (material # (case map_of SYNONYMS material of None \<Rightarrow> [] | Some syns \<Rightarrow> syns))"

section \<open>Rows\<close>

text \<open>
  The dictionaries built by the fetchers, and the same with the \<^verbatim>\<open>score\<close> key that
  \<^verbatim>\<open>main\<close> adds. The GDELT fetcher stores \<^verbatim>\<open>a.get("url")\<close> and the timestamp as they
  come, so both may be \<^verbatim>\<open>None\<close>.
\<close>

record candidate =
  material :: string
  query_variant :: string
  title :: string
  url :: "string option"
  published :: "string option"
  source :: string
  summary :: string

record scored = candidate +
  score :: int

definition with_score :: "candidate \<Rightarrow> int \<Rightarrow> scored" where
  "with_score r s =
     \<lparr>material = material r, query_variant = query_variant r, title = title r, url = url r,
      published = published r, source = source r, summary = summary r, score = s\<rparr>"

section \<open>Relevance scoring\<close>

text \<open>
  \<^verbatim>\<open>fuzz.token_set_ratio\<close> and \<^verbatim>\<open>fuzz.partial_ratio\<close> belong to the rapidfuzz library, which
  is not part of this repository: they are parameters \<open>tsr\<close> and \<open>pr\<close> of the model, functions
  from two strings to a similarity.

  \<^verbatim>\<open>int(x)\<close> on a float truncates towards zero.
\<close>

type_synonym similarity = "string \<Rightarrow> string \<Rightarrow> real"

definition py_int :: "real \<Rightarrow> int" where
  "py_int x = (if 0 \<le> x then \<lfloor>x\<rfloor> else \<lceil>x\<rceil>)"

definition text_l :: "('a candidate_scheme) \<Rightarrow> string" where
  "text_l row = lower (title row @ '' '' @ summary row)"

text \<open>Each of the four loops starts at 0 and keeps the maximum.\<close>

definition max_over :: "(string \<Rightarrow> real) \<Rightarrow> string list \<Rightarrow> real" where
  "max_over f ts = foldl (\<lambda>acc t. max acc (f t)) 0 ts"

definition base_match :: "similarity \<Rightarrow> ('a candidate_scheme) \<Rightarrow> real" where
  "base_match tsr row = max_over (\<lambda>t. tsr (lower t) (text_l row)) (expand_queries (material row))"

definition mpl_boost :: "similarity \<Rightarrow> ('a candidate_scheme) \<Rightarrow> real" where
  "mpl_boost pr row = max_over (\<lambda>t. 0.6 * pr (lower t) (text_l row)) MPL_TERMS"

definition east_boost :: "similarity \<Rightarrow> ('a candidate_scheme) \<Rightarrow> real" where
  "east_boost pr row = max_over (\<lambda>rgn. 0.35 * pr (lower rgn) (text_l row)) EAST_AF_HINTS"

definition global_boost :: "similarity \<Rightarrow> ('a candidate_scheme) \<Rightarrow> real" where
  "global_boost pr row =
     max_over (\<lambda>kw. 0.35 * pr (lower kw) (text_l row)) (GLOBAL_SUPPLY_HINTS @ GLOBAL_PORTS)"

definition GENERIC_KEYWORDS :: "string list" where
  "GENERIC_KEYWORDS = [''celebrity'', ''football'', ''movie'', ''lottery'', ''gossip'']"

definition generic :: "string \<Rightarrow> bool" where
  "generic txt = list_ex (\<lambda>k. contains k txt) GENERIC_KEYWORDS"

text \<open>Lines 293 to 297: the penalty and the final expression.\<close>

definition final_score :: "real \<Rightarrow> real \<Rightarrow> real \<Rightarrow> real \<Rightarrow> bool \<Rightarrow> int" where
  "final_score base mplb eastb globalb gen =
     (let penalty = (if gen then 12 else 0)
      in py_int (min 100 (base + mplb + eastb + globalb - penalty)))"

definition relevance_score :: "similarity \<Rightarrow> similarity \<Rightarrow> ('a candidate_scheme) \<Rightarrow> int" where
  "relevance_score tsr pr row =
     final_score (base_match tsr row) (mpl_boost pr row) (east_boost pr row)
       (global_boost pr row) (generic (text_l row))"

text \<open>
  The value before truncation, \<^verbatim>\<open>base + mpl_boost + east_boost + global_boost - penalty\<close>.
\<close>

definition raw_total :: "similarity \<Rightarrow> similarity \<Rightarrow> ('a candidate_scheme) \<Rightarrow> real" where
  "raw_total tsr pr row =
     base_match tsr row + mpl_boost pr row + east_boost pr row + global_boost pr row
       - (if generic (text_l row) then 12 else 0)"

section \<open>Deduplication\<close>

text \<open>
  \<^verbatim>\<open>hashlib.sha256\<close> is a library function: \<open>H\<close> stands for the hexadecimal SHA-256 digest of
  the UTF-8 encoding of a string. Successive \<^verbatim>\<open>update\<close> calls hash the concatenation of their
  arguments, and the encoding of a concatenation is the concatenation of the encodings, so
  \<^verbatim>\<open>hash_id\<close> digests the parts joined with nothing between them. \<^verbatim>\<open>p or ""\<close> turns
  \<^verbatim>\<open>None\<close> into the empty string.
\<close>

type_synonym digest = "string \<Rightarrow> string"

definition or_empty :: "string option \<Rightarrow> string" where
  "or_empty p = (case p of None \<Rightarrow> [] | Some s \<Rightarrow> s)"

definition hash_id :: "digest \<Rightarrow> string option list \<Rightarrow> string" where
  "hash_id H parts = take 16 (H (concat (map or_empty parts)))"

definition fingerprint :: "digest \<Rightarrow> ('a candidate_scheme) \<Rightarrow> string" where
  "fingerprint H r = hash_id H [url r, Some (title r)]"

text \<open>The inner loop over \<^verbatim>\<open>keep\<close>, which stops at the first title that is close enough.\<close>

definition near_dup :: "similarity \<Rightarrow> ('a candidate_scheme) list \<Rightarrow> ('a candidate_scheme) \<Rightarrow> bool" where
  "near_dup tsr keep r = list_ex (\<lambda>u. 92 \<le> tsr (lower (title r)) (lower (title u))) keep"

text \<open>One iteration of the outer loop, on the pair of \<^verbatim>\<open>seen\<close> and \<^verbatim>\<open>keep\<close>.\<close>

definition dedup_step ::
  "digest \<Rightarrow> similarity \<Rightarrow> string set \<times> ('a candidate_scheme) list \<Rightarrow> ('a candidate_scheme)
    \<Rightarrow> string set \<times> ('a candidate_scheme) list" where
  "dedup_step H tsr st r =
     (let hid = fingerprint H r in
      if hid \<in> fst st then st
      else if near_dup tsr (snd st) r then st
      else (insert hid (fst st), snd st @ [r]))"

definition deduplicate :: "digest \<Rightarrow> similarity \<Rightarrow> ('a candidate_scheme) list \<Rightarrow> ('a candidate_scheme) list" where
  "deduplicate H tsr rows = snd (foldl (dedup_step H tsr) ({}, []) rows)"

section \<open>Date normalisation\<close>

text \<open>
  A naive \<^verbatim>\<open>datetime\<close> is the number of microseconds since 0001-01-01 00:00:00; the largest
  one is 9999-12-31 23:59:59.999999. \<^verbatim>\<open>datetime.strptime\<close> and the time zone database are
  not part of the repository: \<open>strptime s f\<close> is the parsed value, or \<open>None\<close> where Python
  raises \<^verbatim>\<open>ValueError\<close>, and \<open>utcoffset d\<close> is the offset of Africa/Kampala at the UTC
  instant \<open>d\<close>. \<^verbatim>\<open>astimezone\<close> adds the offset and raises \<^verbatim>\<open>OverflowError\<close> when the sum
  leaves the range of \<^verbatim>\<open>datetime\<close>; the \<^verbatim>\<open>except\<close> clause of \<^verbatim>\<open>normalize_date\<close> covers
  that call too.
\<close>

type_synonym datetime = int

datatype fmt = RSS | GDELT_SEENDATE | ISO_Z | ISO_SPACE

definition fmts :: "fmt list" where
  "fmts = [RSS, GDELT_SEENDATE, ISO_Z, ISO_SPACE]"

definition DATETIME_MAX :: datetime where
  "DATETIME_MAX = 3652059 * 86400 * 1000000 - 1"

definition astimezone_local :: "(datetime \<Rightarrow> int) \<Rightarrow> datetime \<Rightarrow> datetime option" where
  "astimezone_local utcoffset d =
     (let l = d + utcoffset d in if 0 \<le> l \<and> l \<le> DATETIME_MAX then Some l else None)"

fun try_formats ::
  "(string \<Rightarrow> fmt \<Rightarrow> datetime option) \<Rightarrow> (datetime \<Rightarrow> int) \<Rightarrow> string \<Rightarrow> fmt list \<Rightarrow> datetime option" where
  "try_formats strptime utcoffset s [] = None"
| "try_formats strptime utcoffset s (f # fs) =
     (case strptime s f of
        None \<Rightarrow> try_formats strptime utcoffset s fs
      | Some dt \<Rightarrow>
          (case astimezone_local utcoffset dt of
             None \<Rightarrow> try_formats strptime utcoffset s fs
           | Some l \<Rightarrow> Some l))"

definition normalize_date ::
  "(string \<Rightarrow> fmt \<Rightarrow> datetime option) \<Rightarrow> (datetime \<Rightarrow> int) \<Rightarrow> string option \<Rightarrow> datetime option" where
  "normalize_date strptime utcoffset s =
     (case s of
        None \<Rightarrow> None
      | Some str \<Rightarrow> if str = [] then None else try_formats strptime utcoffset str fmts)"

text \<open>
  \<^verbatim>\<open>normalize_date(r.get("published","")) or today_local().replace(tzinfo=None)\<close>: a
  \<^verbatim>\<open>datetime\<close> is always true, so the clock is read exactly when the result is \<^verbatim>\<open>None\<close>.
\<close>

definition published_or_now ::
  "(string \<Rightarrow> fmt \<Rightarrow> datetime option) \<Rightarrow> (datetime \<Rightarrow> int) \<Rightarrow> datetime \<Rightarrow> string option \<Rightarrow> datetime" where
  "published_or_now strptime utcoffset now s =
     (case normalize_date strptime utcoffset s of None \<Rightarrow> now | Some d \<Rightarrow> d)"

text \<open>
  One attempt of the loop of \<^verbatim>\<open>normalize_date\<close>: the body of the \<^verbatim>\<open>try\<close>, which yields
  a value when both the parse and the conversion succeed.
\<close>

definition parse_local ::
  "(string \<Rightarrow> fmt \<Rightarrow> datetime option) \<Rightarrow> (datetime \<Rightarrow> int) \<Rightarrow> string \<Rightarrow> fmt \<Rightarrow> datetime option" where
  "parse_local strptime utcoffset s f =
     (case strptime s f of None \<Rightarrow> None | Some dt \<Rightarrow> astimezone_local utcoffset dt)"

section \<open>The main pipeline\<close>

text \<open>
  The network is outside the model: \<open>fetched\<close> holds, for each material in turn, the rows
  that \<^verbatim>\<open>fetch_google_news\<close> and \<^verbatim>\<open>fetch_gdelt\<close> returned (no rows for a material whose
  fetch failed), \<open>metas\<close> holds what \<^verbatim>\<open>fetch_page_meta\<close> returned for each pinned URL, and
  \<open>stamps\<close> the formatted clock readings taken for them.
\<close>

definition score_rows :: "similarity \<Rightarrow> similarity \<Rightarrow> candidate list \<Rightarrow> scored list" where
  "score_rows tsr pr rows = map (\<lambda>r. with_score r (relevance_score tsr pr r)) rows"

definition floor_filter :: "scored list \<Rightarrow> scored list" where
  "floor_filter rows = filter (\<lambda>r. MIN_RELEVANCE \<le> score r) rows"

definition material_rows :: "similarity \<Rightarrow> similarity \<Rightarrow> candidate list \<Rightarrow> scored list" where
  "material_rows tsr pr rows = floor_filter (score_rows tsr pr rows)"

definition pinned_row :: "string \<Rightarrow> string \<times> string \<Rightarrow> string \<Rightarrow> scored" where
  "pinned_row u meta stamp =
     \<lparr>material = ''MULTI / GLOBAL'', query_variant = ''Pinned'',
      title = (if fst meta \<noteq> [] then fst meta else ''Pinned: External insight''),
      url = Some u, published = Some stamp, source = ''Pinned'', summary = snd meta,
      score = 100\<rparr>"

definition pinned_rows :: "(string \<times> string) list \<Rightarrow> string list \<Rightarrow> scored list" where
  "pinned_rows metas stamps =
     map (\<lambda>(u, meta, stamp). pinned_row u meta stamp) (zip PINNED_SIGNALS (zip metas stamps))"

definition pooled_rows ::
  "similarity \<Rightarrow> similarity \<Rightarrow> candidate list list \<Rightarrow> (string \<times> string) list \<Rightarrow> string list \<Rightarrow> scored list" where
  "pooled_rows tsr pr fetched metas stamps =
     concat (map (material_rows tsr pr) fetched) @ pinned_rows metas stamps"

definition all_rows ::
  "digest \<Rightarrow> similarity \<Rightarrow> similarity \<Rightarrow> candidate list list \<Rightarrow> (string \<times> string) list \<Rightarrow> string list
    \<Rightarrow> scored list" where
  "all_rows H tsr pr fetched metas stamps = deduplicate H tsr (pooled_rows tsr pr fetched metas stamps)"

record output_record =
  Material :: string
  QueryVariant :: string
  Source :: string
  Title :: string
  Summary :: string
  URL :: "string option"
  Published :: datetime
  Relevance :: int

definition to_record ::
  "(string \<Rightarrow> fmt \<Rightarrow> datetime option) \<Rightarrow> (datetime \<Rightarrow> int) \<Rightarrow> datetime \<Rightarrow> scored \<Rightarrow> output_record" where
  "to_record strptime utcoffset now r =
     \<lparr>Material = material r, QueryVariant = query_variant r, Source = source r, Title = title r,
      Summary = summary r, URL = url r,
      Published = published_or_now strptime utcoffset now (published r), Relevance = score r\<rparr>"

text \<open>The clock is read once for each row, so \<open>clock i\<close> is the reading taken for row \<open>i\<close>.\<close>

definition build_records ::
  "(string \<Rightarrow> fmt \<Rightarrow> datetime option) \<Rightarrow> (datetime \<Rightarrow> int) \<Rightarrow> (nat \<Rightarrow> datetime) \<Rightarrow> scored list
    \<Rightarrow> output_record list" where
  "build_records strptime utcoffset clock rows =
     map (\<lambda>(i, r). to_record strptime utcoffset (clock i) r) (enumerate 0 rows)"

text \<open>
  \<^verbatim>\<open>df.sort_values(["Material","Relevance","Published"], ascending=[True, False, False])\<close>:
  a sort on the three columns, the last two descending; rows that agree on all three keep
  their order. Strings compare character by character, as Python's do.
\<close>

definition sort_key3 :: "output_record \<Rightarrow> string \<times> int \<times> int" where
  "sort_key3 r = (Material r, - Relevance r, - Published r)"

definition sort_values :: "output_record list \<Rightarrow> output_record list" where
  "sort_values recs = sort_key sort_key3 recs"

text \<open>The order that the three columns and their directions describe.\<close>

definition comes_before :: "output_record \<Rightarrow> output_record \<Rightarrow> bool" where
  "comes_before a b =
     (Material a < Material b \<or>
      (Material a = Material b \<and>
        (Relevance b < Relevance a \<or>
         (Relevance a = Relevance b \<and> Published b \<le> Published a))))"

definition main_output ::
  "digest \<Rightarrow> similarity \<Rightarrow> similarity \<Rightarrow> (string \<Rightarrow> fmt \<Rightarrow> datetime option) \<Rightarrow> (datetime \<Rightarrow> int)
    \<Rightarrow> (nat \<Rightarrow> datetime) \<Rightarrow> candidate list list \<Rightarrow> (string \<times> string) list \<Rightarrow> string list
    \<Rightarrow> output_record list option" where
  "main_output H tsr pr strptime utcoffset clock fetched metas stamps =
     (let rows = all_rows H tsr pr fetched metas stamps in
      if rows = [] then None
      else Some (sort_values (build_records strptime utcoffset clock rows)))"

section \<open>HTTP retrieval with retries\<close>

text \<open>
  \<^verbatim>\<open>requests.get\<close> either raises or returns a response; \<open>net a\<close> is what attempt \<open>a\<close> meets
  and \<open>rnd a\<close> the value of \<^verbatim>\<open>random.random()\<close> drawn after it. The function returns the
  response, if any, with the trace of the requests sent and the sleeps taken.
\<close>

record response =
  status_code :: nat
  body :: string

datatype outcome = Raised | Returned response

datatype event = Request nat | Sleep real

definition backoff_sleep :: "nat \<Rightarrow> real \<Rightarrow> real" where
  "backoff_sleep attempt u = (let (lo, hi) = RETRY_BACKOFF in (lo + (hi - lo) * u) * real attempt)"

definition after_failure :: "(nat \<Rightarrow> real) \<Rightarrow> nat \<Rightarrow> event list" where
  "after_failure rnd attempt =
     (if attempt < RETRY_ATTEMPTS then [Sleep (backoff_sleep attempt (rnd attempt))] else [])"

fun attempts :: "(nat \<Rightarrow> outcome) \<Rightarrow> (nat \<Rightarrow> real) \<Rightarrow> nat list \<Rightarrow> response option \<times> event list" where
  "attempts net rnd [] = (None, [])"
| "attempts net rnd (a # rest) =
     (case net a of
        Returned r \<Rightarrow>
          if status_code r = 200 then (Some r, [Request a])
          else (fst (attempts net rnd rest), Request a # after_failure rnd a @ snd (attempts net rnd rest))
      | Raised \<Rightarrow>
          (fst (attempts net rnd rest), Request a # after_failure rnd a @ snd (attempts net rnd rest)))"

definition safe_get :: "(nat \<Rightarrow> outcome) \<Rightarrow> (nat \<Rightarrow> real) \<Rightarrow> response option \<times> event list" where
  "safe_get net rnd = attempts net rnd [1 ..< RETRY_ATTEMPTS + 1]"

definition requests_sent :: "event list \<Rightarrow> nat" where
  "requests_sent evs = length (filter (\<lambda>e. case e of Request a \<Rightarrow> True | Sleep d \<Rightarrow> False) evs)"

text \<open>What an attempt brings back: a response with status 200 ends the loop.\<close>

definition succeeds :: "outcome \<Rightarrow> bool" where
  "succeeds out = (case out of Raised \<Rightarrow> False | Returned r \<Rightarrow> status_code r = 200)"

definition response_of :: "outcome \<Rightarrow> response option" where
  "response_of out = (case out of Raised \<Rightarrow> None | Returned r \<Rightarrow> Some r)"

section \<open>Concrete inputs\<close>

text \<open>
  Stand-ins for the library functions and a few rows, on which the results below are
  evaluated. \<open>zero_sim\<close> finds nothing similar; \<open>brand_sim\<close> reports \<open>100 / 3\<close> when its first
  argument is \<^verbatim>\<open>mpl\<close> and shares a letter with the second, and 0 otherwise.
\<close>

definition zero_sim :: similarity where
  "zero_sim a b = 0"

definition brand_sim :: similarity where
  "brand_sim a b = (if a = ''mpl'' \<and> list_ex (\<lambda>c. c \<in> set b) a then 100 / 3 else 0)"

definition gossip_row :: candidate where
  "gossip_row =
     \<lparr>material = ''KERAVIS'', query_variant = ''KERAVIS'', title = ''Lottery gossip'',
      url = Some ''http://example.org/a'', published = None, source = ''GDELT'', summary = ''''\<rparr>"

definition plain_row :: candidate where
  "plain_row =
     \<lparr>material = ''ACETONE'', query_variant = ''propanone'', title = ''Acetone supply'',
      url = Some ''http://example.org/b'', published = None, source = ''GDELT'',
      summary = ''tight''\<rparr>"

definition plain_digest :: digest where
  "plain_digest s = s"

definition full_sim :: similarity where
  "full_sim a b = 100"

definition row_ab_c :: scored where
  "row_ab_c =
     \<lparr>material = ''ACETONE'', query_variant = ''ACETONE'', title = ''c'', url = Some ''ab'',
      published = None, source = ''GDELT'', summary = '''', score = 80\<rparr>"

definition row_a_bc :: scored where
  "row_a_bc =
     \<lparr>material = ''ACETONE'', query_variant = ''propanone'', title = ''bc'', url = Some ''a'',
      published = None, source = ''GoogleNewsRSS'', summary = '''', score = 70\<rparr>"

definition row_60 :: scored where
  "row_60 =
     \<lparr>material = ''ACETONE'', query_variant = ''ACETONE'', title = ''Acetone exports'',
      url = Some ''http://example.org/60'', published = None, source = ''GDELT'', summary = '''',
      score = 60\<rparr>"

definition row_59 :: scored where
  "row_59 =
     \<lparr>material = ''ACETONE'', query_variant = ''ACETONE'', title = ''Acetone imports'',
      url = Some ''http://example.org/59'', published = None, source = ''GDELT'', summary = '''',
      score = 59\<rparr>"

definition bbc_row :: candidate where
  "bbc_row =
     \<lparr>material = ''LPG GAS'', query_variant = ''propane'', title = ''Propane prices jump'',
      url = Some ''https://www.bbc.com/news/articles/c9qy98gp474o'',
      published = Some ''20250101120000'', source = ''GDELT'', summary = ''BBC News''\<rparr>"

definition half_sim :: similarity where
  "half_sim a b = 50"

definition bbc_meta :: "string \<times> string" where
  "bbc_meta = (''Propane prices jump'', ''BBC News'')"

text \<open>
  A parser that knows the compact numeric form of two instants, 2023-01-02 10:00:00 and
  9999-12-31 23:00:00, as \<^verbatim>\<open>strptime\<close> reads them with \<^verbatim>\<open>%Y%m%d%H%M%S\<close>; the offset of
  East Africa Time, three hours; a parser that accepts nothing.
\<close>

definition seendate_parser :: "string \<Rightarrow> fmt \<Rightarrow> datetime option" where
  "seendate_parser s f =
     (if f = GDELT_SEENDATE \<and> s = ''20230102100000'' then Some 63808250400000000
      else if f = GDELT_SEENDATE \<and> s = ''99991231230000'' then Some 315537894000000000
      else None)"

definition eat_offset :: "datetime \<Rightarrow> int" where
  "eat_offset d = 3 * 3600 * 1000000"

definition no_parser :: "string \<Rightarrow> fmt \<Rightarrow> datetime option" where
  "no_parser s f = None"

definition rec_a :: output_record where
  "rec_a = \<lparr>Material = ''ACETONE'', QueryVariant = ''propanone'', Source = ''GDELT'',
     Title = ''Acetone exports'', Summary = '''', URL = Some ''http://example.org/1'',
     Published = 63808250400000000, Relevance = 70\<rparr>"

definition rec_b :: output_record where
  "rec_b = \<lparr>Material = ''ACETONE'', QueryVariant = ''ACETONE'', Source = ''GoogleNewsRSS'',
     Title = ''Plant shutdown'', Summary = '''', URL = Some ''http://example.org/2'',
     Published = 63808261200000000, Relevance = 70\<rparr>"

definition rec_c :: output_record where
  "rec_c = \<lparr>Material = ''ACETONE'', QueryVariant = ''ACETONE'', Source = ''GDELT'',
     Title = ''Tariff on solvents'', Summary = '''', URL = Some ''http://example.org/3'',
     Published = 63808250400000000, Relevance = 95\<rparr>"

definition rec_d :: output_record where
  "rec_d = \<lparr>Material = ''ACETIC ACID'', QueryVariant = ''ACETIC ACID'', Source = ''GDELT'',
     Title = ''Vinegar shortage'', Summary = '''', URL = None,
     Published = 63808250400000000, Relevance = 61\<rparr>"

text \<open>
  Three networks: one whose first answer is a server error and whose second is a success,
  one that always raises, one that answers at once.
\<close>

definition error_then_ok :: "nat \<Rightarrow> outcome" where
  "error_then_ok a =
     (if a = 1 then Returned \<lparr>status_code = 500, body = ''''\<rparr>
      else Returned \<lparr>status_code = 200, body = ''ok''\<rparr>)"

definition always_raises :: "nat \<Rightarrow> outcome" where
  "always_raises a = Raised"

definition half_jitter :: "nat \<Rightarrow> real" where
  "half_jitter a = 1 / 2"

section \<open>Properties of the scoring\<close>

lemma max_over_foldl_ge: "(acc::real) \<le> foldl (\<lambda>acc t. max acc (f t)) acc ts"
proof (induction ts arbitrary: acc)
  case Nil
  show ?case by simp
next
  case (Cons t ts)
  have "acc \<le> max acc (f t)" by simp
  also have "\<dots> \<le> foldl (\<lambda>acc t. max acc (f t)) (max acc (f t)) ts" by (rule Cons.IH)
  finally show ?case by simp
qed

lemma max_over_nonneg: "0 \<le> max_over f ts"
  unfolding max_over_def by (rule max_over_foldl_ge)

lemma py_int_mono: "x \<le> y \<Longrightarrow> py_int x \<le> py_int y"
proof -
  assume le: "x \<le> y"
  have fc: "\<lfloor>x\<rfloor> \<le> \<lceil>x\<rceil>" by (rule floor_le_ceiling)
  show ?thesis
  proof (cases "0 \<le> x")
    case True
    with le have "0 \<le> y" by simp
    with True le show ?thesis by (simp add: py_int_def floor_mono)
  next
    case False
    show ?thesis
    proof (cases "0 \<le> y")
      case True
      from False have "\<lceil>x\<rceil> \<le> 0" by (simp add: ceiling_le_iff)
      moreover from True have "0 \<le> \<lfloor>y\<rfloor>" by simp
      ultimately have "\<lceil>x\<rceil> \<le> \<lfloor>y\<rfloor>" by (rule order_trans)
      with False True show ?thesis by (simp add: py_int_def)
    next
      case ny: False
      with False le show ?thesis by (simp add: py_int_def ceiling_mono)
    qed
  qed
qed

lemma py_int_100: "py_int 100 = 100"
  by (simp add: py_int_def)

lemma final_score_le: "final_score b m e g gen \<le> 100"
proof -
  have "py_int (min 100 (b + m + e + g - (if gen then 12 else 0))) \<le> py_int 100"
    by (rule py_int_mono) simp
  then show ?thesis by (simp add: final_score_def py_int_100)
qed

lemma py_int_nonneg_iff: "0 \<le> py_int x \<longleftrightarrow> - 1 < x"
  by (auto simp add: py_int_def le_ceiling_iff)

lemma boosts_nonneg:
  "0 \<le> base_match tsr row + mpl_boost pr row + east_boost pr row + global_boost pr row"
  unfolding base_match_def mpl_boost_def east_boost_def global_boost_def
  by (intro add_nonneg_nonneg max_over_nonneg)

lemma relevance_score_raw: "relevance_score tsr pr row = py_int (min 100 (raw_total tsr pr row))"
  by (simp add: relevance_score_def final_score_def raw_total_def)

lemma max_over_zero: "max_over (\<lambda>t. 0) ts = 0"
  unfolding max_over_def by (induction ts) simp_all

lemma max_over_foldl_mem:
  "x \<in> set ts \<Longrightarrow> f x \<le> foldl (\<lambda>acc t. max acc (f t)) (acc::real) ts"
proof (induction ts arbitrary: acc)
  case Nil
  then show ?case by simp
next
  case (Cons t ts)
  show ?case
  proof (cases "x = t")
    case True
    have "f x \<le> max acc (f t)" using True by simp
    also have "\<dots> \<le> foldl (\<lambda>acc t. max acc (f t)) (max acc (f t)) ts"
      by (rule max_over_foldl_ge)
    finally show ?thesis by simp
  next
    case False
    with Cons.prems have "x \<in> set ts" by simp
    then have "f x \<le> foldl (\<lambda>acc t. max acc (f t)) (max acc (f t)) ts" by (rule Cons.IH)
    then show ?thesis by simp
  qed
qed

lemma max_over_mem: "x \<in> set ts \<Longrightarrow> f x \<le> max_over f ts"
  unfolding max_over_def by (rule max_over_foldl_mem)

text \<open>A substring brings all its characters with it.\<close>

lemma starts_with_set: "starts_with k t \<Longrightarrow> set k \<subseteq> set t"
  by (induction k t rule: starts_with.induct) auto

lemma contains_set: "contains k t \<Longrightarrow> set k \<subseteq> set t"
proof (induction t)
  case Nil
  then show ?case by simp
next
  case (Cons d t)
  from Cons.prems have "starts_with k (d # t) \<or> contains k t" by simp
  then show ?case
  proof
    assume "starts_with k (d # t)"
    then show ?thesis by (rule starts_with_set)
  next
    assume "contains k t"
    then have "set k \<subseteq> set t" by (rule Cons.IH)
    then show ?thesis by auto
  qed
qed

text \<open>
  Each of the five penalty keywords holds a letter of the brand term \<^verbatim>\<open>mpl\<close>: celebrity,
  football and lottery an l, movie an m, gossip a p. So does every text with a penalty keyword.
\<close>

lemma generic_shares_letter: "generic t \<Longrightarrow> set ''mpl'' \<inter> set t \<noteq> {}"
proof -
  assume "generic t"
  then consider "contains ''celebrity'' t" | "contains ''football'' t" | "contains ''movie'' t"
    | "contains ''lottery'' t" | "contains ''gossip'' t"
    by (auto simp add: generic_def GENERIC_KEYWORDS_def)
  then show ?thesis
  proof cases
    case 1
    from contains_set [OF 1] have "CHR ''l'' \<in> set t" by simp
    then show ?thesis by auto
  next
    case 2
    from contains_set [OF 2] have "CHR ''l'' \<in> set t" by simp
    then show ?thesis by auto
  next
    case 3
    from contains_set [OF 3] have "CHR ''m'' \<in> set t" by simp
    then show ?thesis by auto
  next
    case 4
    from contains_set [OF 4] have "CHR ''l'' \<in> set t" by simp
    then show ?thesis by auto
  next
    case 5
    from contains_set [OF 5] have "CHR ''p'' \<in> set t" by simp
    then show ?thesis by auto
  qed
qed

lemma lower_MPL: "lower ''MPL'' = ''mpl''"
  by code_simp

text \<open>
  \<^verbatim>\<open>MPL\<close> is one of \<^const>\<open>MPL_TERMS\<close>, so the loop of lines 278 to 280 brings the brand boost
  to at least \<open>0.6 * 100 / 3 = 20\<close> on a text with a penalty keyword, once \<^verbatim>\<open>partial_ratio\<close>
  rates \<^verbatim>\<open>mpl\<close> against a text that shares a letter with it at \<open>100 / 3\<close> or more.
\<close>

lemma mpl_boost_ge:
  assumes lib: "\<And>t. set ''mpl'' \<inter> set t \<noteq> {} \<Longrightarrow> 100 / 3 \<le> pr ''mpl'' t"
    and gen: "generic (text_l row)"
  shows "20 \<le> mpl_boost pr row"
proof -
  from gen have "set ''mpl'' \<inter> set (text_l row) \<noteq> {}" by (rule generic_shares_letter)
  then have "100 / 3 \<le> pr ''mpl'' (text_l row)" by (rule lib)
  then have "20 \<le> 0.6 * pr (lower ''MPL'') (text_l row)" by (simp add: lower_MPL)
  also have "\<dots> \<le> max_over (\<lambda>t. 0.6 * pr (lower t) (text_l row)) MPL_TERMS"
    by (rule max_over_mem) (simp add: MPL_TERMS_def)
  finally show ?thesis by (simp add: mpl_boost_def)
qed

lemma raw_total_nonneg:
  assumes lib: "\<And>t. set ''mpl'' \<inter> set t \<noteq> {} \<Longrightarrow> 100 / 3 \<le> pr ''mpl'' t"
  shows "0 \<le> raw_total tsr pr row"
proof (cases "generic (text_l row)")
  case True
  have b: "0 \<le> base_match tsr row" unfolding base_match_def by (rule max_over_nonneg)
  have e: "0 \<le> east_boost pr row" unfolding east_boost_def by (rule max_over_nonneg)
  have g: "0 \<le> global_boost pr row" unfolding global_boost_def by (rule max_over_nonneg)
  have m: "20 \<le> mpl_boost pr row" using lib True by (rule mpl_boost_ge)
  from b e g m True show ?thesis by (simp add: raw_total_def)
next
  case False
  with boosts_nonneg [of tsr row pr] show ?thesis by (simp add: raw_total_def)
qed

text \<open>
  Claim C1. For every candidate the relevance score is an integer between 0 and 100, and it
  is \<open>base + mpl_boost + east_boost + global_boost - penalty\<close>, clamped below at 0 and above
  at 100, then truncated to an integer. Line 296 writes the upper clamp only,
  \<^verbatim>\<open>int(min(100, ...))\<close>; the lower one never acts, since the sum is not negative: the four
  maxima start at 0, and where the penalty of 12 applies the brand boost is at least 20.
  The similarity measures are rapidfuzz's and are parameters here; of \<^verbatim>\<open>partial_ratio\<close> the
  theorem assumes that it rates the needle \<^verbatim>\<open>mpl\<close> against any text sharing a letter with it at
  \<open>100 / 3\<close> or more (one common letter in a window of three characters). Nothing is assumed
  of \<^verbatim>\<open>token_set_ratio\<close>.
\<close>

theorem relevance_score_range:
  assumes lib: "\<And>t. set ''mpl'' \<inter> set t \<noteq> {} \<Longrightarrow> 100 / 3 \<le> pr ''mpl'' t"
  shows "relevance_score tsr pr row = py_int (max 0 (min 100 (raw_total tsr pr row))) \<and>
         0 \<le> relevance_score tsr pr row \<and> relevance_score tsr pr row \<le> 100"
proof -
  have nn: "0 \<le> raw_total tsr pr row" using lib by (rule raw_total_nonneg)
  have raw: "relevance_score tsr pr row = py_int (min 100 (raw_total tsr pr row))"
    by (rule relevance_score_raw)
  from nn have cl: "max 0 (min 100 (raw_total tsr pr row)) = min 100 (raw_total tsr pr row)"
    by simp
  from nn have lo: "0 \<le> relevance_score tsr pr row"
    unfolding raw py_int_nonneg_iff by simp
  have hi: "relevance_score tsr pr row \<le> 100"
    unfolding relevance_score_def by (rule final_score_le)
  from raw cl lo hi show ?thesis by simp
qed

lemma gossip_text: "text_l gossip_row = ''lottery gossip ''"
  by code_simp

lemma gossip_generic: "generic ''lottery gossip ''"
  by (simp add: generic_def GENERIC_KEYWORDS_def)

lemma brand_sim_shared: "set ''mpl'' \<inter> set t \<noteq> {} \<Longrightarrow> 100 / 3 \<le> brand_sim ''mpl'' t"
  by (auto simp add: brand_sim_def)

lemma gossip_score: "relevance_score zero_sim brand_sim gossip_row = 8"
  by code_simp

text \<open>
  The statement of C1 at a row with two penalty keywords and the smallest similarities the
  hypothesis allows: the brand boost is 20, the penalty 12, the score 8.
\<close>

theorem relevance_score_range_witness:
  "generic (text_l gossip_row) \<and> relevance_score zero_sim brand_sim gossip_row = 8 \<and>
   0 \<le> relevance_score zero_sim brand_sim gossip_row \<and>
   relevance_score zero_sim brand_sim gossip_row \<le> 100"
  using relevance_score_range [of brand_sim zero_sim gossip_row, OF brand_sim_shared]
  by (simp add: gossip_text gossip_generic gossip_score)

lemma py_int_shift:
  assumes "12 \<le> t" and "t \<le> 100"
  shows "py_int (min 100 (t - 12)) = py_int (min 100 t) - 12"
proof -
  have "\<lfloor>t - 12\<rfloor> = \<lfloor>t\<rfloor> - 12"
    using floor_diff_of_int [of t 12] by simp
  moreover from assms have "min 100 (t - 12) = t - 12" and "min 100 t = t" by simp_all
  ultimately show ?thesis using assms by (simp add: py_int_def)
qed

lemma py_int_max_shift:
  assumes "11 < t" and "t \<le> 100"
  shows "py_int (min 100 (t - 12)) = max 0 (py_int (min 100 t) - 12)"
proof (cases "12 \<le> t")
  case True
  then have "py_int (min 100 (t - 12)) = py_int (min 100 t) - 12"
    using assms(2) by (rule py_int_shift)
  moreover have "0 \<le> py_int (min 100 (t - 12))"
    unfolding py_int_nonneg_iff using True by simp
  ultimately show ?thesis by simp
next
  case False
  with assms have a: "py_int (min 100 (t - 12)) = 0"
    by (simp add: py_int_def min_def) linarith
  from False assms have "\<lfloor>t\<rfloor> = 11" by linarith
  with False assms have b: "py_int (min 100 t) = 11" by (simp add: py_int_def min_def)
  from a b show ?thesis by simp
qed

text \<open>
  Claim C8, as the code has it. With the base similarity and the three boosts held fixed,
  and \<open>t\<close> their sum: as long as \<open>t \<le> 100\<close>, the score with a penalty keyword is the score
  without it less 12, or 0 where that would be negative. Above 100 the cap is applied after
  the subtraction: the score without the keyword is 100, and the score with it is
  \<open>\<lfloor>t - 12\<rfloor>\<close> while \<open>t < 112\<close> and 100 from \<open>t = 112\<close> on. The sums considered are those
  above 11: on a text with a penalty keyword the brand boost alone is 20 or more, under the
  hypothesis of C1.
\<close>

theorem penalty_lowers_score:
  "(11 < b + m + e + g \<and> b + m + e + g \<le> 100 \<longrightarrow>
      final_score b m e g True = max 0 (final_score b m e g False - 12)) \<and>
   (100 < b + m + e + g \<and> b + m + e + g < 112 \<longrightarrow>
      final_score b m e g False = 100 \<and> final_score b m e g True = \<lfloor>b + m + e + g - 12\<rfloor>) \<and>
   (112 \<le> b + m + e + g \<longrightarrow>
      final_score b m e g True = 100 \<and> final_score b m e g False = 100)"
proof (intro conjI impI)
  assume h: "11 < b + m + e + g \<and> b + m + e + g \<le> 100"
  show "final_score b m e g True = max 0 (final_score b m e g False - 12)"
    using h py_int_max_shift [of "b + m + e + g"] by (simp add: final_score_def)
next
  assume h: "100 < b + m + e + g \<and> b + m + e + g < 112"
  then show "final_score b m e g False = 100" by (simp add: final_score_def py_int_def min_def)
next
  assume h: "100 < b + m + e + g \<and> b + m + e + g < 112"
  then show "final_score b m e g True = \<lfloor>b + m + e + g - 12\<rfloor>"
    by (simp add: final_score_def py_int_def min_def)
next
  assume h: "112 \<le> b + m + e + g"
  then show "final_score b m e g True = 100" by (simp add: final_score_def py_int_def min_def)
next
  assume h: "112 \<le> b + m + e + g"
  then show "final_score b m e g False = 100" by (simp add: final_score_def py_int_def min_def)
qed

text \<open>
  The three cases of C8 at concrete similarities, each with a brand boost of 20 or more: sums
  50.5, 106.5 and 160.
\<close>

theorem penalty_lowers_score_witness:
  "final_score 30.5 20 0 0 True = 38 \<and> final_score 30.5 20 0 0 False = 50 \<and>
   final_score 80 26.5 0 0 True = 94 \<and> final_score 80 26.5 0 0 False = 100 \<and>
   final_score 100 60 0 0 True = 100 \<and> final_score 100 60 0 0 False = 100"
  using penalty_lowers_score [of "30.5" 20 0 0] penalty_lowers_score [of 80 "26.5" 0 0]
    penalty_lowers_score [of 100 60 0 0]
  by (simp add: final_score_def py_int_def)

text \<open>
  Claim C8 as stated (the penalised score is the unpenalised one minus 12, or 0 if that is
  negative) fails at base 100 and brand boost 60: both scores are 100.
\<close>

theorem penalty_not_always_twelve:
  "final_score 100 60 0 0 False = 100 \<and> final_score 100 60 0 0 True = 100 \<and>
   \<not> (final_score 100 60 0 0 True =
        (if final_score 100 60 0 0 False - 12 < 0 then 0 else final_score 100 60 0 0 False - 12))"
  by (simp add: final_score_def py_int_def)

section \<open>Properties of the deduplication\<close>

lemma near_dup_iff:
  "near_dup tsr keep r \<longleftrightarrow> (\<exists>u \<in> set keep. 92 \<le> tsr (lower (title r)) (lower (title u)))"
  by (simp add: near_dup_def list_ex_iff)

lemma deduplicate_Nil: "deduplicate H tsr [] = []"
  by (simp add: deduplicate_def)

lemma seen_fingerprints:
  "fst (foldl (dedup_step H tsr) ({}, []) rows) =
     fingerprint H ` set (snd (foldl (dedup_step H tsr) ({}, []) rows))"
proof (induction rows rule: rev_induct)
  case Nil
  show ?case by simp
next
  case (snoc r rows)
  then show ?case by (simp add: dedup_step_def Let_def)
qed

lemma deduplicate_snoc:
  "deduplicate H tsr (rows @ [r]) =
     (if fingerprint H r \<in> fingerprint H ` set (deduplicate H tsr rows) then deduplicate H tsr rows
      else if near_dup tsr (deduplicate H tsr rows) r then deduplicate H tsr rows
      else deduplicate H tsr rows @ [r])"
  using seen_fingerprints [of H tsr rows]
  by (simp add: deduplicate_def dedup_step_def Let_def)

lemma deduplicate_single: "deduplicate H tsr [a] = [a]"
  using deduplicate_snoc [of H tsr "[]" a] by (simp add: deduplicate_Nil near_dup_def)

lemma deduplicate_pair:
  "deduplicate H tsr [a, b] =
     (if fingerprint H b = fingerprint H a then [a]
      else if 92 \<le> tsr (lower (title b)) (lower (title a)) then [a]
      else [a, b])"
  using deduplicate_snoc [of H tsr "[a]" b] by (simp add: deduplicate_single near_dup_def)

lemma deduplicate_distinct: "distinct (map (fingerprint H) (deduplicate H tsr rows))"
proof (induction rows rule: rev_induct)
  case Nil
  show ?case by (simp add: deduplicate_Nil)
next
  case (snoc r rows)
  then show ?case by (simp add: deduplicate_snoc)
qed

lemma deduplicate_subset: "set (deduplicate H tsr rows) \<subseteq> set rows"
proof (induction rows rule: rev_induct)
  case Nil
  show ?case by (simp add: deduplicate_Nil)
next
  case (snoc r rows)
  then show ?case by (auto simp add: deduplicate_snoc)
qed

lemma fingerprint_concat: "fingerprint H r = take 16 (H (or_empty (url r) @ title r))"
  by (simp add: fingerprint_def hash_id_def or_empty_def)

text \<open>
  Claim C4. The rows are taken from left to right, so the kept rows of \<open>rows @ [r]\<close> are
  those of \<open>rows\<close> with \<open>r\<close> added or not. A row whose title has a token-set similarity of
  92 or more with the title of a kept row is dropped, whatever its URL; a row that passed
  the exact phase and has no such kept row is appended. Of two rows with similar titles the
  first one alone survives.
\<close>

theorem near_duplicate_dropped:
  "(near_dup tsr keep r \<longleftrightarrow> (\<exists>u \<in> set keep. 92 \<le> tsr (lower (title r)) (lower (title u)))) \<and>
   (near_dup tsr (deduplicate H tsr rows) r \<longrightarrow>
      deduplicate H tsr (rows @ [r]) = deduplicate H tsr rows) \<and>
   (\<not> near_dup tsr (deduplicate H tsr rows) r \<and>
    fingerprint H r \<notin> fingerprint H ` set (deduplicate H tsr rows) \<longrightarrow>
      deduplicate H tsr (rows @ [r]) = deduplicate H tsr rows @ [r]) \<and>
   (92 \<le> tsr (lower (title b)) (lower (title a)) \<longrightarrow> deduplicate H tsr [a, b] = [a])"
  by (simp add: near_dup_iff deduplicate_snoc deduplicate_pair)

text \<open>
  Claim C5. The fingerprint is computed from the URL and the title; a row whose fingerprint
  is that of a kept row is dropped, so no two kept rows share a fingerprint; of two rows
  with the same URL and title the first one alone survives.
\<close>

theorem exact_duplicate_dropped:
  "fingerprint H r = hash_id H [url r, Some (title r)] \<and>
   distinct (map (fingerprint H) (deduplicate H tsr rows)) \<and>
   (fingerprint H r \<in> fingerprint H ` set (deduplicate H tsr rows) \<longrightarrow>
      deduplicate H tsr (rows @ [r]) = deduplicate H tsr rows) \<and>
   (url a = url b \<and> title a = title b \<longrightarrow>
      fingerprint H a = fingerprint H b \<and> deduplicate H tsr [a, b] = [a])"
  by (simp add: deduplicate_distinct deduplicate_snoc deduplicate_pair fingerprint_def)

text \<open>
  Claim C10. The fingerprint is the first 16 characters of the digest of the URL followed
  directly by the title, a missing URL counting as empty. Two rows whose concatenations
  agree have the same fingerprint, also when their URLs and titles differ, and the later
  one is dropped in the exact phase once the earlier one is kept.
\<close>

theorem fingerprint_no_separator:
  "fingerprint H r = take 16 (H (or_empty (url r) @ title r)) \<and>
   (or_empty (url a) @ title a = or_empty (url b) @ title b \<longrightarrow>
      fingerprint H a = fingerprint H b \<and> deduplicate H tsr [a, b] = [a] \<and>
      (a \<in> set (deduplicate H tsr rows) \<longrightarrow>
         deduplicate H tsr (rows @ [b]) = deduplicate H tsr rows))"
proof (intro conjI impI)
  show "fingerprint H r = take 16 (H (or_empty (url r) @ title r))"
    by (rule fingerprint_concat)
next
  assume eq: "or_empty (url a) @ title a = or_empty (url b) @ title b"
  then show fp: "fingerprint H a = fingerprint H b"
    by (simp add: fingerprint_concat)
  then show "deduplicate H tsr [a, b] = [a]"
    by (simp add: deduplicate_pair)
  assume "a \<in> set (deduplicate H tsr rows)"
  then have "fingerprint H a \<in> fingerprint H ` set (deduplicate H tsr rows)"
    by (rule imageI)
  with fp show "deduplicate H tsr (rows @ [b]) = deduplicate H tsr rows"
    by (simp add: deduplicate_snoc)
qed

text \<open>C10 at the URLs \<open>ab\<close>, \<open>a\<close> and the titles \<open>c\<close>, \<open>bc\<close>.\<close>

theorem fingerprint_no_separator_witness:
  "url row_ab_c \<noteq> url row_a_bc \<and> title row_ab_c \<noteq> title row_a_bc \<and>
   or_empty (url row_ab_c) @ title row_ab_c = or_empty (url row_a_bc) @ title row_a_bc \<and>
   fingerprint plain_digest row_ab_c = fingerprint plain_digest row_a_bc \<and>
   deduplicate plain_digest zero_sim [row_ab_c, row_a_bc] = [row_ab_c]"
proof -
  have eq: "or_empty (url row_ab_c) @ title row_ab_c = or_empty (url row_a_bc) @ title row_a_bc"
    by (simp add: row_ab_c_def row_a_bc_def or_empty_def)
  have ne: "url row_ab_c \<noteq> url row_a_bc \<and> title row_ab_c \<noteq> title row_a_bc"
    by (simp add: row_ab_c_def row_a_bc_def)
  from fingerprint_no_separator [where H = plain_digest and tsr = zero_sim and a = row_ab_c
      and b = row_a_bc] eq ne
  show ?thesis by blast
qed

text \<open>C4 at two rows with different URLs.\<close>

theorem near_duplicate_dropped_witness:
  "url row_60 \<noteq> url row_59 \<and>
   92 \<le> full_sim (lower (title row_59)) (lower (title row_60)) \<and>
   deduplicate plain_digest full_sim [row_60, row_59] = [row_60]"
proof -
  have sim: "92 \<le> full_sim (lower (title row_59)) (lower (title row_60))"
    by (simp add: full_sim_def)
  have ne: "url row_60 \<noteq> url row_59"
    by (simp add: row_60_def row_59_def)
  from near_duplicate_dropped [where H = plain_digest and tsr = full_sim and a = row_60
      and b = row_59] sim ne
  show ?thesis by blast
qed

text \<open>C5 at two rows that differ in the score only.\<close>

theorem exact_duplicate_dropped_witness:
  "url row_60 = url (row_60\<lparr>score := 75\<rparr>) \<and> title row_60 = title (row_60\<lparr>score := 75\<rparr>) \<and>
   row_60 \<noteq> row_60\<lparr>score := 75\<rparr> \<and>
   deduplicate plain_digest zero_sim [row_60, row_60\<lparr>score := 75\<rparr>] = [row_60]"
proof -
  have same: "url row_60 = url (row_60\<lparr>score := 75\<rparr>) \<and> title row_60 = title (row_60\<lparr>score := 75\<rparr>)"
    by simp
  have ne: "row_60 \<noteq> row_60\<lparr>score := 75\<rparr>"
    by (simp add: row_60_def)
  from exact_duplicate_dropped [where H = plain_digest and tsr = zero_sim and a = row_60
      and b = "row_60\<lparr>score := 75\<rparr>"] same ne
  show ?thesis by blast
qed

lemma max_over_const:
  assumes "ts \<noteq> []" and "0 \<le> c"
  shows "max_over (\<lambda>t. c) ts = c"
proof -
  have "foldl (\<lambda>acc t. max acc c) c xs = c" for xs :: "string list"
    by (induction xs) simp_all
  with assms show ?thesis
    by (cases ts) (simp_all add: max_over_def max_def)
qed

section \<open>Properties of the pipeline\<close>

text \<open>
  Claim C3. The floor is 60. A scored row is in the filtered list exactly when it was in
  the list and its score is at least 60; a fetched row reaches the pool exactly when its
  relevance score is at least 60.
\<close>

theorem relevance_floor:
  "MIN_RELEVANCE = 60 \<and>
   (r \<in> set (floor_filter rows) \<longleftrightarrow> r \<in> set rows \<and> 60 \<le> score r) \<and>
   (c \<in> set cands \<longrightarrow>
      (with_score c (relevance_score tsr pr c) \<in> set (material_rows tsr pr cands)
         \<longleftrightarrow> 60 \<le> relevance_score tsr pr c))"
proof (intro conjI impI)
  show "MIN_RELEVANCE = 60" by (simp add: MIN_RELEVANCE_def)
  show "r \<in> set (floor_filter rows) \<longleftrightarrow> r \<in> set rows \<and> 60 \<le> score r"
    by (simp add: floor_filter_def MIN_RELEVANCE_def)
  assume "c \<in> set cands"
  then show "with_score c (relevance_score tsr pr c) \<in> set (material_rows tsr pr cands)
         \<longleftrightarrow> 60 \<le> relevance_score tsr pr c"
    by (auto simp add: material_rows_def floor_filter_def score_rows_def MIN_RELEVANCE_def
        with_score_def)
qed

text \<open>C3 at a row with score 59 and a row with score 60.\<close>

theorem relevance_floor_witness:
  "score row_59 = 59 \<and> score row_60 = 60 \<and> row_59 \<notin> set (floor_filter [row_59, row_60]) \<and>
   row_60 \<in> set (floor_filter [row_59, row_60])"
proof -
  have s59: "score row_59 = 59" by (simp add: row_59_def)
  have s60: "score row_60 = 60" by (simp add: row_60_def)
  have "row_59 \<in> set (floor_filter [row_59, row_60]) \<longleftrightarrow>
      row_59 \<in> set [row_59, row_60] \<and> 60 \<le> score row_59"
    using relevance_floor [where r = row_59 and rows = "[row_59, row_60]" and c = plain_row
        and cands = "[]" and tsr = zero_sim and pr = zero_sim]
    by blast
  with s59 have out: "row_59 \<notin> set (floor_filter [row_59, row_60])" by simp
  have "row_60 \<in> set (floor_filter [row_59, row_60]) \<longleftrightarrow>
      row_60 \<in> set [row_59, row_60] \<and> 60 \<le> score row_60"
    using relevance_floor [where r = row_60 and rows = "[row_59, row_60]" and c = plain_row
        and cands = "[]" and tsr = zero_sim and pr = zero_sim]
    by blast
  with s60 have "row_60 \<in> set (floor_filter [row_59, row_60])" by simp
  with s59 s60 out show ?thesis by blast
qed

text \<open>
  Claim C2 fails on the code. The pinned rows are appended after the fetched rows and go
  through \<^verbatim>\<open>deduplicate\<close> like every other row. When a fetched row that passed the floor
  has the URL and the title of a pinned page, the pinned row has the fingerprint of a kept
  row and is dropped, for every digest and every similarity function.
\<close>

theorem pinned_row_dropped:
  "deduplicate H tsr
     [\<lparr>material = m, query_variant = q, title = title (pinned_row u meta stamp), url = Some u,
       published = p, source = src, summary = sm, score = s\<rparr>,
      pinned_row u meta stamp] =
     [\<lparr>material = m, query_variant = q, title = title (pinned_row u meta stamp), url = Some u,
       published = p, source = src, summary = sm, score = s\<rparr>]"
  by (simp add: deduplicate_pair fingerprint_concat pinned_row_def)

lemma bbc_text: "text_l bbc_row = ''propane prices jump bbc news''"
  by code_simp

lemma bbc_generic: "\<not> generic ''propane prices jump bbc news''"
  by (simp add: generic_def GENERIC_KEYWORDS_def)

lemma bbc_score: "relevance_score zero_sim half_sim bbc_row = 65"
proof -
  have b: "base_match zero_sim bbc_row = 0"
    by (simp add: base_match_def zero_sim_def max_over_zero)
  have m: "mpl_boost half_sim bbc_row = 30"
    using max_over_const [of MPL_TERMS "0.6 * 50"]
    by (simp add: mpl_boost_def half_sim_def MPL_TERMS_def)
  have e: "east_boost half_sim bbc_row = 35 / 2"
    using max_over_const [of EAST_AF_HINTS "0.35 * 50"]
    by (simp add: east_boost_def half_sim_def EAST_AF_HINTS_def)
  have g: "global_boost half_sim bbc_row = 35 / 2"
    using max_over_const [of "GLOBAL_SUPPLY_HINTS @ GLOBAL_PORTS" "0.35 * 50"]
    by (simp add: global_boost_def half_sim_def GLOBAL_PORTS_def)
  have "relevance_score zero_sim half_sim bbc_row = final_score 0 30 (35 / 2) (35 / 2) False"
    unfolding relevance_score_def b m e g bbc_text using bbc_generic by simp
  also have "\<dots> = 65" by (simp add: final_score_def py_int_def)
  finally show ?thesis .
qed

text \<open>
  The same through the whole of \<^verbatim>\<open>main\<close>, with the shipped list of pinned URLs: the pooled
  output holds the fetched row with its score of 65 and no pinned row.
\<close>

lemma pinned_signal_lost:
  "pinned_rows [bbc_meta] [''2025-01-02 09:00:00''] =
     [pinned_row ''https://www.bbc.com/news/articles/c9qy98gp474o'' bbc_meta ''2025-01-02 09:00:00''] \<and>
   all_rows plain_digest zero_sim half_sim [[bbc_row]] [bbc_meta] [''2025-01-02 09:00:00''] =
     [with_score bbc_row 65] \<and>
   source (with_score bbc_row 65) = ''GDELT'' \<and> score (with_score bbc_row 65) = 65"
proof -
  have pins: "pinned_rows [bbc_meta] [''2025-01-02 09:00:00''] =
     [pinned_row ''https://www.bbc.com/news/articles/c9qy98gp474o'' bbc_meta ''2025-01-02 09:00:00'']"
    by (simp add: pinned_rows_def PINNED_SIGNALS_def)
  have mat: "material_rows zero_sim half_sim [bbc_row] = [with_score bbc_row 65]"
    by (simp add: material_rows_def score_rows_def floor_filter_def bbc_score MIN_RELEVANCE_def
        with_score_def)
  have fp: "fingerprint plain_digest
      (pinned_row ''https://www.bbc.com/news/articles/c9qy98gp474o'' bbc_meta ''2025-01-02 09:00:00'') =
      fingerprint plain_digest (with_score bbc_row 65)"
    by (simp add: fingerprint_concat pinned_row_def bbc_meta_def with_score_def bbc_row_def)
  have "all_rows plain_digest zero_sim half_sim [[bbc_row]] [bbc_meta] [''2025-01-02 09:00:00''] =
     [with_score bbc_row 65]"
    by (simp add: all_rows_def pooled_rows_def pins mat deduplicate_pair fp)
  with pins show ?thesis by (simp add: with_score_def bbc_row_def)
qed

section \<open>Properties of the date normalisation\<close>

lemma try_formats_Cons:
  "try_formats sp off s (f # fs) =
     (case parse_local sp off s f of Some l \<Rightarrow> Some l | None \<Rightarrow> try_formats sp off s fs)"
  by (simp add: parse_local_def split: option.splits)

lemma parse_local_Some:
  "parse_local sp off s f = Some l \<longleftrightarrow>
     (\<exists>d. sp s f = Some d \<and> l = d + off d \<and> 0 \<le> l \<and> l \<le> DATETIME_MAX)"
  by (auto simp add: parse_local_def astimezone_local_def Let_def split: option.splits)

text \<open>
  Claim C7, as the code has it. A missing or empty string gives \<^verbatim>\<open>None\<close>. Otherwise the
  four formats are tried in the order RSS, compact numeric, ISO with \<^verbatim>\<open>Z\<close>, ISO with a
  space, and the result is that of the first format whose parse and whose conversion both
  succeed: the parsed value, read as UTC, plus the offset of the local zone, with no zone
  attached. When no format gets that far the result is \<^verbatim>\<open>None\<close>, and the caller takes the
  clock reading instead.
\<close>

theorem normalize_date_priority:
  "normalize_date sp off None = None \<and> normalize_date sp off (Some []) = None \<and>
   (str \<noteq> [] \<longrightarrow>
      normalize_date sp off (Some str) =
        (case parse_local sp off str RSS of Some l \<Rightarrow> Some l | None \<Rightarrow>
         (case parse_local sp off str GDELT_SEENDATE of Some l \<Rightarrow> Some l | None \<Rightarrow>
          (case parse_local sp off str ISO_Z of Some l \<Rightarrow> Some l | None \<Rightarrow>
             parse_local sp off str ISO_SPACE)))) \<and>
   (parse_local sp off str f = Some l \<longleftrightarrow>
      (\<exists>d. sp str f = Some d \<and> l = d + off d \<and> 0 \<le> l \<and> l \<le> DATETIME_MAX)) \<and>
   (normalize_date sp off s = None \<longrightarrow> published_or_now sp off now s = now) \<and>
   (normalize_date sp off s = Some l \<longrightarrow> published_or_now sp off now s = l)"
proof (intro conjI impI)
  show "normalize_date sp off None = None" by (simp add: normalize_date_def)
  show "normalize_date sp off (Some []) = None" by (simp add: normalize_date_def)
  show "parse_local sp off str f = Some l \<longleftrightarrow>
      (\<exists>d. sp str f = Some d \<and> l = d + off d \<and> 0 \<le> l \<and> l \<le> DATETIME_MAX)"
    by (rule parse_local_Some)
next
  assume "str \<noteq> []"
  then show "normalize_date sp off (Some str) =
        (case parse_local sp off str RSS of Some l \<Rightarrow> Some l | None \<Rightarrow>
         (case parse_local sp off str GDELT_SEENDATE of Some l \<Rightarrow> Some l | None \<Rightarrow>
          (case parse_local sp off str ISO_Z of Some l \<Rightarrow> Some l | None \<Rightarrow>
             parse_local sp off str ISO_SPACE)))"
    by (simp add: normalize_date_def fmts_def try_formats_Cons del: try_formats.simps(2)
        split: option.splits)
next
  assume "normalize_date sp off s = None"
  then show "published_or_now sp off now s = now" by (simp add: published_or_now_def)
next
  assume "normalize_date sp off s = Some l"
  then show "published_or_now sp off now s = l" by (simp add: published_or_now_def)
qed

lemma parse_2023:
  "parse_local seendate_parser eat_offset ''20230102100000'' GDELT_SEENDATE = Some 63808261200000000"
  by (simp add: parse_local_def seendate_parser_def eat_offset_def astimezone_local_def
      DATETIME_MAX_def)

lemma parse_2023_rss: "parse_local seendate_parser eat_offset ''20230102100000'' RSS = None"
  by (simp add: parse_local_def seendate_parser_def)

text \<open>C7 at a timestamp in the compact numeric form and at a string no format accepts.\<close>

theorem normalize_date_priority_witness:
  "normalize_date seendate_parser eat_offset (Some ''20230102100000'') = Some 63808261200000000 \<and>
   published_or_now seendate_parser eat_offset 7 (Some ''20230102100000'') = 63808261200000000 \<and>
   normalize_date seendate_parser eat_offset (Some ''yesterday'') = None \<and>
   published_or_now seendate_parser eat_offset 7 (Some ''yesterday'') = 7"
proof -
  have a: "normalize_date seendate_parser eat_offset (Some ''20230102100000'') =
      Some 63808261200000000"
    using normalize_date_priority [where sp = seendate_parser and off = eat_offset
        and str = "''20230102100000''" and s = None and f = RSS and l = 0]
    by (simp add: parse_2023 parse_2023_rss)
  have b: "normalize_date seendate_parser eat_offset (Some ''yesterday'') = None"
    using normalize_date_priority [where sp = seendate_parser and off = eat_offset
        and str = "''yesterday''" and s = None and f = RSS and l = 0]
    by (simp add: parse_local_def seendate_parser_def)
  from a have c: "published_or_now seendate_parser eat_offset 7 (Some ''20230102100000'') =
      63808261200000000"
    using normalize_date_priority [where sp = seendate_parser and off = eat_offset
        and str = "''x''" and s = "Some ''20230102100000''" and f = RSS
        and l = 63808261200000000 and now = 7]
    by blast
  from b have d: "published_or_now seendate_parser eat_offset 7 (Some ''yesterday'') = 7"
    using normalize_date_priority [where sp = seendate_parser and off = eat_offset
        and str = "''x''" and s = "Some ''yesterday''" and f = RSS and l = 0 and now = 7]
    by blast
  from a b c d show ?thesis by blast
qed

text \<open>
  Claim C7 as stated (the first successful parse is converted and returned) fails at
  \<^verbatim>\<open>"99991231230000"\<close>: the second format parses it as 9999-12-31 23:00:00, adding three
  hours leaves the range of \<^verbatim>\<open>datetime\<close>, the \<^verbatim>\<open>OverflowError\<close> is caught like a failed
  parse, the remaining formats fail, and the result is \<^verbatim>\<open>None\<close>.
\<close>

theorem parsed_but_not_returned:
  "seendate_parser ''99991231230000'' GDELT_SEENDATE = Some 315537894000000000 \<and>
   seendate_parser ''99991231230000'' RSS = None \<and>
   normalize_date seendate_parser eat_offset (Some ''99991231230000'') = None \<and>
   published_or_now seendate_parser eat_offset 7 (Some ''99991231230000'') = 7"
  by (simp add: normalize_date_def published_or_now_def fmts_def seendate_parser_def
      eat_offset_def astimezone_local_def DATETIME_MAX_def)

section \<open>Properties of the final ordering\<close>

lemma sort_key3_le: "sort_key3 a \<le> sort_key3 b \<longleftrightarrow> comes_before a b"
  by (auto simp add: sort_key3_def comes_before_def less_eq_prod_def)

lemma sorted_comes_before:
  "sorted (map sort_key3 recs) \<longleftrightarrow> sorted_wrt comes_before recs"
  by (simp add: sorted_wrt_map sort_key3_le)

lemma sort_values_sorted: "sorted_wrt comes_before (sort_values recs)"
proof -
  have "sorted (map sort_key3 (sort_key sort_key3 recs))" by (rule sorted_sort_key)
  then show ?thesis unfolding sort_values_def by (simp only: sorted_comes_before)
qed

text \<open>
  Claim C6. The sorted records are ordered by material ascending, then relevance
  descending, then published instant descending; they are the records that were given, and
  records that agree on all three keys keep their order, so the output is determined by the
  list of records. The same holds for what \<^verbatim>\<open>main\<close> writes.
\<close>

theorem final_order:
  "sorted_wrt comes_before (sort_values recs) \<and>
   mset (sort_values recs) = mset recs \<and>
   filter (\<lambda>r. sort_key3 r = k) (sort_values recs) = filter (\<lambda>r. sort_key3 r = k) recs \<and>
   (comes_before a b \<longleftrightarrow>
      Material a < Material b \<or>
      (Material a = Material b \<and>
        (Relevance b < Relevance a \<or>
         (Relevance a = Relevance b \<and> Published b \<le> Published a)))) \<and>
   (main_output H tsr pr sp off clock fetched metas stamps = Some out \<longrightarrow>
      sorted_wrt comes_before out \<and>
      mset out = mset (build_records sp off clock (all_rows H tsr pr fetched metas stamps)))"
proof (intro conjI impI)
  show "sorted_wrt comes_before (sort_values recs)" by (rule sort_values_sorted)
  show "mset (sort_values recs) = mset recs" by (simp add: sort_values_def)
  show "filter (\<lambda>r. sort_key3 r = k) (sort_values recs) = filter (\<lambda>r. sort_key3 r = k) recs"
    unfolding sort_values_def by (rule sort_key_stable)
  show "comes_before a b \<longleftrightarrow>
      Material a < Material b \<or>
      (Material a = Material b \<and>
        (Relevance b < Relevance a \<or>
         (Relevance a = Relevance b \<and> Published b \<le> Published a)))"
    by (simp add: comes_before_def)
next
  assume out: "main_output H tsr pr sp off clock fetched metas stamps = Some out"
  then have eq: "out = sort_values (build_records sp off clock (all_rows H tsr pr fetched metas stamps))"
    by (simp add: main_output_def Let_def split: if_splits)
  show "sorted_wrt comes_before out" unfolding eq by (rule sort_values_sorted)
  show "mset out = mset (build_records sp off clock (all_rows H tsr pr fetched metas stamps))"
    unfolding eq by (simp add: sort_values_def)
qed

lemma sort_four: "sort_values [rec_a, rec_b, rec_c, rec_d] = [rec_d, rec_c, rec_b, rec_a]"
  by code_simp

text \<open>C6 at four records, and at a run of \<^verbatim>\<open>main\<close> that produces one record.\<close>

theorem final_order_witness:
  "sort_values [rec_a, rec_b, rec_c, rec_d] = [rec_d, rec_c, rec_b, rec_a] \<and>
   sorted_wrt comes_before [rec_d, rec_c, rec_b, rec_a] \<and>
   main_output plain_digest zero_sim half_sim no_parser eat_offset (\<lambda>i. 7) [[bbc_row]] [bbc_meta]
       [''2025-01-02 09:00:00''] =
     Some [to_record no_parser eat_offset 7 (with_score bbc_row 65)] \<and>
   sorted_wrt comes_before [to_record no_parser eat_offset 7 (with_score bbc_row 65)]"
proof -
  have run: "main_output plain_digest zero_sim half_sim no_parser eat_offset (\<lambda>i. 7) [[bbc_row]]
       [bbc_meta] [''2025-01-02 09:00:00''] =
     Some [to_record no_parser eat_offset 7 (with_score bbc_row 65)]"
    using pinned_signal_lost
    by (simp add: main_output_def build_records_def sort_values_def)
  from final_order [where recs = "[rec_a, rec_b, rec_c, rec_d]"]
  have "sorted_wrt comes_before (sort_values [rec_a, rec_b, rec_c, rec_d])" by blast
  then have four: "sorted_wrt comes_before [rec_d, rec_c, rec_b, rec_a]"
    by (simp only: sort_four)
  from final_order [where H = plain_digest and tsr = zero_sim and pr = half_sim
      and sp = no_parser and off = eat_offset and clock = "\<lambda>i. 7" and fetched = "[[bbc_row]]"
      and metas = "[bbc_meta]" and stamps = "[''2025-01-02 09:00:00'']"
      and out = "[to_record no_parser eat_offset 7 (with_score bbc_row 65)]"] run
  have "sorted_wrt comes_before [to_record no_parser eat_offset 7 (with_score bbc_row 65)]"
    by blast
  with run four sort_four show ?thesis by blast
qed

section \<open>Properties of the retrieval\<close>

lemma attempt_numbers: "[1 ..< RETRY_ATTEMPTS + 1] = [1, 2, 3]"
  unfolding RETRY_ATTEMPTS_def by code_simp

lemma attempts_step:
  "attempts net rnd (a # rest) =
     (if succeeds (net a) then (response_of (net a), [Request a])
      else (fst (attempts net rnd rest),
            Request a # after_failure rnd a @ snd (attempts net rnd rest)))"
  by (simp add: succeeds_def response_of_def split: outcome.splits)

lemma backoff_sleep_eq: "backoff_sleep a u = (1.2 + 0.8 * u) * real a"
  by (simp add: backoff_sleep_def RETRY_BACKOFF_def)

lemma backoff_sleep_bounds:
  assumes "0 \<le> u" and "u < 1"
  shows "1.2 * real a \<le> backoff_sleep a u" and "backoff_sleep a u \<le> 2.0 * real a"
proof -
  from assms have lo: "1.2 \<le> 1.2 + 0.8 * u" and hi: "1.2 + 0.8 * u \<le> 2.0" by simp_all
  have a: "0 \<le> real a" by simp
  show "1.2 * real a \<le> backoff_sleep a u"
    unfolding backoff_sleep_eq by (rule mult_right_mono [OF lo a])
  show "backoff_sleep a u \<le> 2.0 * real a"
    unfolding backoff_sleep_eq by (rule mult_right_mono [OF hi a])
qed

lemma safe_get_trace:
  "snd (safe_get net rnd) =
     (if succeeds (net 1) then [Request 1]
      else if succeeds (net 2) then [Request 1, Sleep (backoff_sleep 1 (rnd 1)), Request 2]
      else [Request 1, Sleep (backoff_sleep 1 (rnd 1)), Request 2,
            Sleep (backoff_sleep 2 (rnd 2)), Request 3])"
  unfolding safe_get_def attempt_numbers
  by (simp add: attempts_step after_failure_def RETRY_ATTEMPTS_def del: attempts.simps(2))

lemma safe_get_result:
  "fst (safe_get net rnd) =
     (if succeeds (net 1) then response_of (net 1)
      else if succeeds (net 2) then response_of (net 2)
      else if succeeds (net 3) then response_of (net 3)
      else None)"
  unfolding safe_get_def attempt_numbers
  by (simp add: attempts_step del: attempts.simps(2))

text \<open>
  Claim C9, as the code has it. Between one and \<^verbatim>\<open>RETRY_ATTEMPTS\<close> requests are sent. An
  attempt ends the loop only when it returns a response with status 200; a raised exception
  and a response with any other status both lead to the next attempt. Before attempt
  \<open>a + 1\<close> the function sleeps \<open>(1.2 + 0.8 u) a\<close> seconds, \<open>u\<close> being the random draw, which
  lies between \<open>1.2 a\<close> and \<open>2 a\<close>; after the last attempt it does not sleep, and returns
  \<^verbatim>\<open>None\<close>.
\<close>

theorem safe_get_retries:
  "1 \<le> requests_sent (snd (safe_get net rnd)) \<and>
   requests_sent (snd (safe_get net rnd)) \<le> RETRY_ATTEMPTS \<and>
   snd (safe_get net rnd) =
     (if succeeds (net 1) then [Request 1]
      else if succeeds (net 2) then [Request 1, Sleep (backoff_sleep 1 (rnd 1)), Request 2]
      else [Request 1, Sleep (backoff_sleep 1 (rnd 1)), Request 2,
            Sleep (backoff_sleep 2 (rnd 2)), Request 3]) \<and>
   fst (safe_get net rnd) =
     (if succeeds (net 1) then response_of (net 1)
      else if succeeds (net 2) then response_of (net 2)
      else if succeeds (net 3) then response_of (net 3)
      else None) \<and>
   (succeeds out \<longleftrightarrow> (\<exists>r. out = Returned r \<and> status_code r = 200)) \<and>
   backoff_sleep a u = (1.2 + 0.8 * u) * real a \<and>
   (0 \<le> u \<and> u < 1 \<longrightarrow> 1.2 * real a \<le> backoff_sleep a u \<and> backoff_sleep a u \<le> 2.0 * real a)"
proof (intro conjI impI)
  show "1 \<le> requests_sent (snd (safe_get net rnd))"
    by (simp add: safe_get_trace requests_sent_def)
  show "requests_sent (snd (safe_get net rnd)) \<le> RETRY_ATTEMPTS"
    by (simp add: safe_get_trace requests_sent_def RETRY_ATTEMPTS_def)
  show "snd (safe_get net rnd) =
     (if succeeds (net 1) then [Request 1]
      else if succeeds (net 2) then [Request 1, Sleep (backoff_sleep 1 (rnd 1)), Request 2]
      else [Request 1, Sleep (backoff_sleep 1 (rnd 1)), Request 2,
            Sleep (backoff_sleep 2 (rnd 2)), Request 3])"
    by (rule safe_get_trace)
  show "fst (safe_get net rnd) =
     (if succeeds (net 1) then response_of (net 1)
      else if succeeds (net 2) then response_of (net 2)
      else if succeeds (net 3) then response_of (net 3)
      else None)"
    by (rule safe_get_result)
  show "succeeds out \<longleftrightarrow> (\<exists>r. out = Returned r \<and> status_code r = 200)"
    by (cases out) (simp_all add: succeeds_def)
  show "backoff_sleep a u = (1.2 + 0.8 * u) * real a" by (rule backoff_sleep_eq)
next
  assume "0 \<le> u \<and> u < 1"
  then show "1.2 * real a \<le> backoff_sleep a u" using backoff_sleep_bounds(1) [of u a] by blast
next
  assume "0 \<le> u \<and> u < 1"
  then show "backoff_sleep a u \<le> 2.0 * real a" using backoff_sleep_bounds(2) [of u a] by blast
qed

text \<open>C9 on a network that always raises.\<close>

theorem safe_get_retries_witness:
  "snd (safe_get always_raises half_jitter) =
     [Request 1, Sleep (8 / 5), Request 2, Sleep (16 / 5), Request 3] \<and>
   fst (safe_get always_raises half_jitter) = None \<and>
   requests_sent (snd (safe_get always_raises half_jitter)) = 3 \<and>
   (0::real) \<le> 1 / 2 \<and> (1::real) / 2 < 1 \<and>
   1.2 * real 2 \<le> backoff_sleep 2 (1 / 2) \<and> backoff_sleep 2 (1 / 2) \<le> 2.0 * real 2"
proof -
  have no: "\<not> succeeds (always_raises a)" for a
    by (simp add: succeeds_def always_raises_def)
  have u: "(0::real) \<le> 1 / 2 \<and> (1::real) / 2 < 1" by simp
  note inst = safe_get_retries [where net = always_raises and rnd = half_jitter and a = 2
      and u = "1 / 2" and out = Raised]
  from inst no have tr: "snd (safe_get always_raises half_jitter) =
     [Request 1, Sleep (backoff_sleep 1 (half_jitter 1)), Request 2,
      Sleep (backoff_sleep 2 (half_jitter 2)), Request 3]"
    by simp
  from inst no have res: "fst (safe_get always_raises half_jitter) = None" by simp
  from inst u have b: "1.2 * real 2 \<le> backoff_sleep 2 (1 / 2) \<and> backoff_sleep 2 (1 / 2) \<le> 2.0 * real 2"
    by blast
  have d1: "backoff_sleep 1 (half_jitter 1) = 8 / 5"
    by (simp add: backoff_sleep_eq half_jitter_def)
  have d2: "backoff_sleep 2 (half_jitter 2) = 16 / 5"
    by (simp add: backoff_sleep_eq half_jitter_def)
  from tr have n: "requests_sent (snd (safe_get always_raises half_jitter)) = 3"
    by (simp add: requests_sent_def)
  from tr res n b u show ?thesis unfolding d1 d2 by blast
qed

text \<open>
  Claim C9 as stated (a non-success response is not retried) fails when the first response
  has status 500 and the second has status 200: two requests are sent and the second
  response is returned.
\<close>

theorem server_error_is_retried:
  "error_then_ok 1 = Returned \<lparr>status_code = 500, body = ''''\<rparr> \<and>
   snd (safe_get error_then_ok half_jitter) = [Request 1, Sleep (8 / 5), Request 2] \<and>
   requests_sent (snd (safe_get error_then_ok half_jitter)) = 2 \<and>
   fst (safe_get error_then_ok half_jitter) = Some \<lparr>status_code = 200, body = ''ok''\<rparr>"
  by (simp add: safe_get_trace safe_get_result succeeds_def response_of_def error_then_ok_def
      requests_sent_def backoff_sleep_eq half_jitter_def)

end
